theory Spec2Isabelle
  imports Main "HOL-Library.FSet"
begin

section \<open>Data model (middleware/types.ts)\<close>

text \<open>
  JavaScript numbers are modelled as \<open>int\<close>: every quantity of the rate limiter is an
  integer (millisecond time stamps, counters, limits) far below \<open>2 ^ 53\<close>, where the
  double arithmetic of the source is exact. A \<open>Map<string, T>\<close> is a partial function
  from keys, a \<open>Set<string>\<close> a finite set.
\<close>

datatype LimitType = Requests | Tokens | Sessions | Burst

text \<open>
  The values the store's checks return: \<open>{ allowed, remaining }\<close> for the session check,
  with \<open>resetTime\<close> for the two window checks; the facade's \<open>RateLimitResult\<close> adds
  \<open>limit\<close> and \<open>type\<close>.
\<close>

record Verdict =
  allowed :: bool
  remaining :: int

record WindowVerdict = Verdict +
  resetTime :: int

record RateLimitResult = WindowVerdict +
  limit :: int
  type :: LimitType

text \<open>
  The stored entries. \<open>RequestLimitData\<close> and \<open>TokenLimitData\<close> both carry a
  \<open>resetTime\<close>, which is all that \<open>cleanExpiredEntries\<close> asks of its entry type
  (\<open>T extends { resetTime: number }\<close>).
\<close>

record Windowed =
  resetTime :: int

record RequestLimitData = Windowed +
  count :: int

record TokenLimitData = Windowed +
  dailyUsage :: int

record SessionLimitData =
  activeCount :: int
  sessionIds :: "string fset"

record RateLimitStore =
  requests :: "string \<rightharpoonup> RequestLimitData"
  tokens :: "string \<rightharpoonup> TokenLimitData"
  sessions :: "string \<rightharpoonup> SessionLimitData"

text \<open>
  \<open>RateLimitConfig\<close>, the nested object flattened (\<open>config.requests.limit\<close> is
  \<open>requests_limit\<close>). These are the fields the store manager's constructor sets and its
  methods read. The other declaration of the type in types.ts has four more fields; it is
  the extension \<open>RateLimitConfigExt\<close>, and every function below accepts it as well
  (a \<open>RateLimitConfig_scheme\<close>).
\<close>

record RateLimitConfig =
  requests_limit :: int
  requests_windowMs :: int
  tokens_limit :: int
  tokens_windowMs :: int
  sessions_limit :: int

record RateLimitConfigExt = RateLimitConfig +
  requests_burstLimit :: int
  requests_burstWindowMs :: int
  sessions_windowMs :: int
  sessions_exemptIPs :: "string list"

section \<open>The store manager (lib/rateLimitStore.ts)\<close>

text \<open>The constructor: three empty maps and the fixed configuration.\<close>

definition emptyStore :: RateLimitStore where
  "emptyStore = \<lparr>requests = Map.empty, tokens = Map.empty, sessions = Map.empty\<rparr>"

definition config :: RateLimitConfig where
  "config = \<lparr>requests_limit = 10, requests_windowMs = 60 * 60 * 1000,
     tokens_limit = 5000, tokens_windowMs = 24 * 60 * 60 * 1000,
     sessions_limit = 3\<rparr>"

text \<open>
  \<open>cleanExpiredEntries\<close>: one reading \<open>now\<close> of the clock, then every entry with
  \<open>now >= value.resetTime\<close> is deleted. The two timers of \<open>startCleanupTasks\<close> apply it
  to the request map and to the token map, never to the session map.
\<close>

definition cleanExpiredEntries ::
  "int \<Rightarrow> (string \<rightharpoonup> 'a Windowed_scheme) \<Rightarrow> (string \<rightharpoonup> 'a Windowed_scheme)" where
  "cleanExpiredEntries now m =
     (\<lambda>key. case m key of
        None \<Rightarrow> None
      | Some v \<Rightarrow> if now \<ge> resetTime v then None else Some v)"

text \<open>
  Each check reads the clock once (\<open>Date.now()\<close>), here the argument \<open>now\<close>, and
  returns its verdict together with the store it leaves.
\<close>

definition checkRequestLimit ::
  "'c RateLimitConfig_scheme \<Rightarrow> string \<Rightarrow> int \<Rightarrow> RateLimitStore
     \<Rightarrow> WindowVerdict \<times> RateLimitStore" where
  "checkRequestLimit cfg ip now st =
     (let fresh =
        (let rt = now + requests_windowMs cfg in
         (\<lparr>allowed = True, remaining = requests_limit cfg - 1, WindowVerdict.resetTime = rt\<rparr>,
          st\<lparr>requests := (requests st)(ip \<mapsto> \<lparr>resetTime = rt, count = 1\<rparr>)\<rparr>))
      in case requests st ip of
        None \<Rightarrow> fresh
      | Some data \<Rightarrow>
          if now \<ge> resetTime data then fresh
          else if count data \<ge> requests_limit cfg then
            (\<lparr>allowed = False, remaining = 0, WindowVerdict.resetTime = resetTime data\<rparr>, st)
          else
            (\<lparr>allowed = True, remaining = requests_limit cfg - (count data + 1),
              WindowVerdict.resetTime = resetTime data\<rparr>,
             st\<lparr>requests := (requests st)(ip \<mapsto> data\<lparr>count := count data + 1\<rparr>)\<rparr>))"

definition checkTokenLimit ::
  "'c RateLimitConfig_scheme \<Rightarrow> string \<Rightarrow> int \<Rightarrow> int \<Rightarrow> RateLimitStore
     \<Rightarrow> WindowVerdict \<times> RateLimitStore" where
  "checkTokenLimit cfg ip estimatedTokens now st =
     (let fresh =
        (let rt = now + tokens_windowMs cfg; newUsage = estimatedTokens in
         (\<lparr>allowed = (newUsage \<le> tokens_limit cfg),
           remaining = max 0 (tokens_limit cfg - newUsage),
           WindowVerdict.resetTime = rt\<rparr>,
          st\<lparr>tokens := (tokens st)(ip \<mapsto> \<lparr>resetTime = rt, dailyUsage = newUsage\<rparr>)\<rparr>))
      in case tokens st ip of
        None \<Rightarrow> fresh
      | Some data \<Rightarrow>
          if now \<ge> resetTime data then fresh
          else
            (let newTotal = dailyUsage data + estimatedTokens in
             if newTotal > tokens_limit cfg then
               (\<lparr>allowed = False, remaining = max 0 (tokens_limit cfg - dailyUsage data),
                 WindowVerdict.resetTime = resetTime data\<rparr>, st)
             else
               (\<lparr>allowed = True, remaining = tokens_limit cfg - newTotal,
                 WindowVerdict.resetTime = resetTime data\<rparr>,
                st\<lparr>tokens := (tokens st)(ip \<mapsto> data\<lparr>dailyUsage := newTotal\<rparr>)\<rparr>)))"

text \<open>\<open>checkSessionLimit\<close> reads no clock.\<close>

definition checkSessionLimit ::
  "'c RateLimitConfig_scheme \<Rightarrow> string \<Rightarrow> string \<Rightarrow> RateLimitStore
     \<Rightarrow> Verdict \<times> RateLimitStore" where
  "checkSessionLimit cfg ip sessionId st =
     (case sessions st ip of
        None \<Rightarrow>
          (\<lparr>allowed = True, remaining = sessions_limit cfg - 1\<rparr>,
           st\<lparr>sessions := (sessions st)(ip \<mapsto>
                 \<lparr>activeCount = 1, sessionIds = {|sessionId|}\<rparr>)\<rparr>)
      | Some data \<Rightarrow>
          if sessionId |\<in>| sessionIds data then
            (\<lparr>allowed = True, remaining = sessions_limit cfg - activeCount data\<rparr>, st)
          else if activeCount data \<ge> sessions_limit cfg then
            (\<lparr>allowed = False, remaining = 0\<rparr>, st)
          else
            (\<lparr>allowed = True, remaining = sessions_limit cfg - (activeCount data + 1)\<rparr>,
             st\<lparr>sessions := (sessions st)(ip \<mapsto>
                   \<lparr>activeCount = activeCount data + 1,
                    sessionIds = finsert sessionId (sessionIds data)\<rparr>)\<rparr>))"

definition removeSession :: "string \<Rightarrow> string \<Rightarrow> RateLimitStore \<Rightarrow> RateLimitStore" where
  "removeSession ip sessionId st =
     (case sessions st ip of
        None \<Rightarrow> st
      | Some data \<Rightarrow>
          if sessionId |\<in>| sessionIds data then
            (let ids = sessionIds data |-| {|sessionId|};
                 n = int (fcard ids)
             in if n = 0 then st\<lparr>sessions := (sessions st)(ip := None)\<rparr>
                else st\<lparr>sessions := (sessions st)(ip \<mapsto>
                       \<lparr>activeCount = n, sessionIds = ids\<rparr>)\<rparr>)
          else st)"

text \<open>
  \<open>estimateTokens\<close>: \<open>Math.ceil(text.length / 4)\<close>. The text enters as the list of its
  code units, which is what \<open>length\<close> counts.
\<close>

definition estimateTokens :: "string \<Rightarrow> int" where
  "estimateTokens text = (int (length text) + 3) div 4"

section \<open>The facade (middleware/rateLimiter.ts)\<close>

text \<open>
  The facade works on the pair \<open>(ip, sessionId)\<close> that \<open>getClientIP\<close> and
  \<open>getSessionId\<close> extract from the request; the embedding starts there.
\<close>

text \<open>
  \<open>toString\<close> of an integer: its decimal digits, with a minus sign when negative. The
  \<open>type\<close> of a result is the string itself in the source.
\<close>

fun digits :: "nat \<Rightarrow> string" where
  "digits n =
     (if n < 10 then [''0123456789'' ! n]
      else digits (n div 10) @ [''0123456789'' ! (n mod 10)])"

declare digits.simps [simp del]

definition toString :: "int \<Rightarrow> string" where
  "toString x = (if x < 0 then CHR ''-'' # digits (nat (- x)) else digits (nat x))"

fun typeName :: "LimitType \<Rightarrow> string" where
  "typeName Requests = ''requests''"
| "typeName Tokens = ''tokens''"
| "typeName Sessions = ''sessions''"
| "typeName Burst = ''burst''"

text \<open>\<open>Math.ceil(x / 1000)\<close> on an integer \<open>x\<close>.\<close>

definition ceilSeconds :: "int \<Rightarrow> int" where
  "ceilSeconds x = - ((- x) div 1000)"

text \<open>
  A header object is a map from header names to strings. \<open>createRateLimitHeaders\<close> sets
  four entries and, for a rejection, \<open>Retry-After\<close>.
\<close>

definition createRateLimitHeaders :: "RateLimitResult \<Rightarrow> int \<Rightarrow> (string \<rightharpoonup> string)" where
  "createRateLimitHeaders result now =
     (let headers =
        [''X-RateLimit-Limit'' \<mapsto> toString (limit result),
         ''X-RateLimit-Remaining'' \<mapsto> toString (remaining result),
         ''X-RateLimit-Reset'' \<mapsto> toString (WindowVerdict.resetTime result),
         ''X-RateLimit-Type'' \<mapsto> typeName (type result)]
      in if \<not> allowed result
         then headers(''Retry-After'' \<mapsto>
                toString (ceilSeconds (WindowVerdict.resetTime result - now)))
         else headers)"

text \<open>
  \<open>{ ...headers, ...corsHeaders }\<close>: the caller's entries are assigned after the
  rate-limit headers, in their order, so a caller's entry replaces a rate-limit header of
  the same name, and of two caller's entries of one name the later stays.
\<close>

definition spread :: "(string \<rightharpoonup> string) \<Rightarrow> (string \<times> string) list \<Rightarrow> (string \<rightharpoonup> string)" where
  "spread headers corsHeaders = headers ++ map_of (rev corsHeaders)"

text \<open>
  The 429 response of \<open>createRateLimitResponse\<close>: its status, the numeric fields of its
  JSON body and its merged headers. The human-readable \<open>message\<close> of the body is left
  out, and with it the second clock reading that only the message uses.
\<close>

record RateLimitResponse =
  status :: int
  body :: RateLimitResult
  headers :: "string \<rightharpoonup> string"

definition createRateLimitResponse ::
  "RateLimitResult \<Rightarrow> (string \<times> string) list \<Rightarrow> int \<Rightarrow> RateLimitResponse" where
  "createRateLimitResponse result corsHeaders now =
     \<lparr>status = 429, body = result,
      headers = spread (createRateLimitHeaders result now) corsHeaders\<rparr>"

text \<open>
  One run of \<open>checkLimits\<close> reads the clock up to four times: inside the request check,
  inside the token check, for the reset time of a session rejection, and for the headers
  of a rejection.
\<close>

record ClockReads =
  atRequests :: int
  atTokens :: int
  atSessions :: int
  atHeaders :: int

definition checkLimits ::
  "'c RateLimitConfig_scheme \<Rightarrow> string \<Rightarrow> string \<Rightarrow> string \<Rightarrow> (string \<times> string) list
     \<Rightarrow> ClockReads \<Rightarrow> RateLimitStore \<Rightarrow> RateLimitResponse option \<times> RateLimitStore" where
  "checkLimits cfg ip sessionId messageText corsHeaders ck st =
     (let estimatedTokens = estimateTokens messageText;
          (requestCheck, st1) = checkRequestLimit cfg ip (atRequests ck) st
      in if \<not> allowed requestCheck then
           (Some (createRateLimitResponse
              \<lparr>allowed = False, remaining = remaining requestCheck,
               WindowVerdict.resetTime = WindowVerdict.resetTime requestCheck,
               limit = requests_limit cfg, type = Requests\<rparr> corsHeaders (atHeaders ck)), st1)
         else
           (let (tokenCheck, st2) = checkTokenLimit cfg ip estimatedTokens (atTokens ck) st1
            in if \<not> allowed tokenCheck then
                 (Some (createRateLimitResponse
                    \<lparr>allowed = False, remaining = remaining tokenCheck,
                     WindowVerdict.resetTime = WindowVerdict.resetTime tokenCheck,
                     limit = tokens_limit cfg, type = Tokens\<rparr> corsHeaders (atHeaders ck)), st2)
               else
                 (let (sessionCheck, st3) = checkSessionLimit cfg ip sessionId st2
                  in if \<not> allowed sessionCheck then
                       (Some (createRateLimitResponse
                          \<lparr>allowed = False, remaining = remaining sessionCheck,
                           WindowVerdict.resetTime = atSessions ck + 60000,
                           limit = sessions_limit cfg, type = Sessions\<rparr>
                          corsHeaders (atHeaders ck)), st3)
                     else (None, st3))))"

text \<open>
  \<open>addRateLimitHeaders\<close> decorates the successful response with seven values, kept
  here as the numbers the source prints. It reads
  the clock in the request check and then once more, in the token check or for the
  placeholder reset time. \<open>messageText\<close> is optional, and tested for truthiness: absent
  and empty both take the placeholder branch.
\<close>

record InfoHeaders =
  Requests_Limit :: int
  Requests_Remaining :: int
  Requests_Reset :: int
  Tokens_Limit :: int
  Tokens_Remaining :: int
  Tokens_Reset :: int
  Sessions_Limit :: int

definition truthy :: "string option \<Rightarrow> bool" where
  "truthy t = (case t of None \<Rightarrow> False | Some s \<Rightarrow> s \<noteq> [])"

definition addRateLimitHeaders ::
  "'c RateLimitConfig_scheme \<Rightarrow> string \<Rightarrow> string option \<Rightarrow> int \<Rightarrow> int \<Rightarrow> RateLimitStore
     \<Rightarrow> InfoHeaders \<times> RateLimitStore" where
  "addRateLimitHeaders cfg ip messageText nowRequests nowTokens st =
     (let (requestCheck, st1) = checkRequestLimit cfg ip nowRequests st;
          (tokenRemaining, tokenReset, st2) =
            (if truthy messageText then
               (let (tokenCheck, s) = checkTokenLimit cfg ip 0 nowTokens st1
                in (remaining tokenCheck, WindowVerdict.resetTime tokenCheck, s))
             else (tokens_limit cfg, nowTokens + tokens_windowMs cfg, st1))
      in (\<lparr>Requests_Limit = requests_limit cfg,
           Requests_Remaining = remaining requestCheck,
           Requests_Reset = WindowVerdict.resetTime requestCheck,
           Tokens_Limit = tokens_limit cfg,
           Tokens_Remaining = tokenRemaining,
           Tokens_Reset = tokenReset,
           Sessions_Limit = sessions_limit cfg\<rparr>, st2))"

section \<open>Sequences of operations\<close>

text \<open>
  Everything that can touch the store: the manager's public methods, the two sweeps of
  \<open>startCleanupTasks\<close>, and the facade's three entry points (its \<open>removeSession\<close> is the
  manager's). Each operation carries its own clock readings, with no assumption on them.
\<close>

datatype Op =
    CheckRequest string int
  | CheckToken string int int
  | CheckSession string string
  | RemoveSession string string
  | SweepRequests int
  | SweepTokens int
  | CheckLimits string string string ClockReads
  | AddHeaders string "string option" int int

fun step :: "'c RateLimitConfig_scheme \<Rightarrow> RateLimitStore \<Rightarrow> Op \<Rightarrow> RateLimitStore" where
  "step cfg st (CheckRequest ip now) = snd (checkRequestLimit cfg ip now st)"
| "step cfg st (CheckToken ip n now) = snd (checkTokenLimit cfg ip n now st)"
| "step cfg st (CheckSession ip sid) = snd (checkSessionLimit cfg ip sid st)"
| "step cfg st (RemoveSession ip sid) = removeSession ip sid st"
| "step cfg st (SweepRequests now) = st\<lparr>requests := cleanExpiredEntries now (requests st)\<rparr>"
| "step cfg st (SweepTokens now) = st\<lparr>tokens := cleanExpiredEntries now (tokens st)\<rparr>"
| "step cfg st (CheckLimits ip sid text ck) = snd (checkLimits cfg ip sid text [] ck st)"
| "step cfg st (AddHeaders ip text t1 t2) = snd (addRateLimitHeaders cfg ip text t1 t2 st)"

definition run :: "'c RateLimitConfig_scheme \<Rightarrow> Op list \<Rightarrow> RateLimitStore \<Rightarrow> RateLimitStore" where
  "run cfg ops st = foldl (step cfg) st ops"

section \<open>Repeated calls, invariants and example states\<close>

text \<open>\<open>n\<close> further calls of \<open>checkSessionLimit\<close> with the same arguments, one after the other.\<close>

fun admitAgain ::
  "'c RateLimitConfig_scheme \<Rightarrow> string \<Rightarrow> string \<Rightarrow> nat \<Rightarrow> RateLimitStore
     \<Rightarrow> Verdict list \<times> RateLimitStore" where
  "admitAgain cfg ip sessionId 0 st = ([], st)"
| "admitAgain cfg ip sessionId (Suc n) st =
     (let (v, st1) = checkSessionLimit cfg ip sessionId st;
          (vs, st2) = admitAgain cfg ip sessionId n st1
      in (v # vs, st2))"

text \<open>
  \<open>releases ip ids oper\<close>: the operation is a \<open>removeSession\<close> of key \<open>ip\<close> that names a
  member of \<open>ids\<close>, the only kind of call that takes a session away from that key.
\<close>

fun releases :: "string \<Rightarrow> string fset \<Rightarrow> Op \<Rightarrow> bool" where
  "releases ip ids (RemoveSession ip' sid) = (ip' = ip \<and> sid |\<in>| ids)"
| "releases ip ids _ = False"

text \<open>Every stored request count is at most the configured request limit.\<close>

definition requestsBounded :: "'c RateLimitConfig_scheme \<Rightarrow> RateLimitStore \<Rightarrow> bool" where
  "requestsBounded cfg st = (\<forall>ip d. requests st ip = Some d \<longrightarrow> count d \<le> requests_limit cfg)"

text \<open>Example states and operation sequences, used to instantiate the theorems below.\<close>

definition staleStore :: RateLimitStore where
  "staleStore = \<lparr>requests = [''10.0.0.1'' \<mapsto> \<lparr>resetTime = 1000, count = 7\<rparr>],
     tokens = [''10.0.0.1'' \<mapsto> \<lparr>resetTime = 1000, dailyUsage = 4000\<rparr>],
     sessions = Map.empty\<rparr>"

definition twoSessions :: RateLimitStore where
  "twoSessions = \<lparr>requests = Map.empty, tokens = Map.empty,
     sessions = [''10.0.0.1'' \<mapsto> \<lparr>activeCount = 2, sessionIds = {|''s1'', ''s2''|}\<rparr>]\<rparr>"

definition elevenRequests :: "Op list" where
  "elevenRequests = replicate 11 (CheckRequest ''10.0.0.1'' 5000)"

definition fullSessions :: RateLimitStore where
  "fullSessions = \<lparr>requests = Map.empty, tokens = Map.empty,
     sessions = [''10.0.0.1'' \<mapsto>
       \<lparr>activeCount = 3, sessionIds = {|''s1'', ''s2'', ''s3''|}\<rparr>]\<rparr>"

definition laterOps :: "Op list" where
  "laterOps =
     [SweepRequests 90000000, SweepTokens 90000000,
      CheckRequest ''10.0.0.1'' 90000001,
      CheckToken ''10.0.0.1'' 10 90000002,
      CheckSession ''10.0.0.1'' ''s4'',
      CheckSession ''10.0.0.1'' ''s2'',
      RemoveSession ''10.0.0.1'' ''s9'',
      RemoveSession ''10.0.0.2'' ''s1'',
      CheckLimits ''10.0.0.1'' ''s5'' ''hello''
        \<lparr>atRequests = 180000000, atTokens = 180000000, atSessions = 180000000,
         atHeaders = 180000000\<rparr>,
      AddHeaders ''10.0.0.1'' (Some ''hello'') 180000001 180000001]"

definition tick :: ClockReads where
  "tick = \<lparr>atRequests = 5000, atTokens = 5000, atSessions = 5000, atHeaders = 5001\<rparr>"

definition sessionRejection :: RateLimitResponse where
  "sessionRejection =
     \<lparr>status = 429,
      body = \<lparr>allowed = False, remaining = 0, WindowVerdict.resetTime = 65000,
              limit = 3, type = Sessions\<rparr>,
      headers = [''X-RateLimit-Limit'' \<mapsto> ''3'', ''X-RateLimit-Remaining'' \<mapsto> ''0'',
                 ''X-RateLimit-Reset'' \<mapsto> ''65000'', ''X-RateLimit-Type'' \<mapsto> ''sessions'',
                 ''Retry-After'' \<mapsto> ''60'']\<rparr>"

text \<open>Clock readings with a full second between the session rejection and its headers.\<close>

definition slowTick :: ClockReads where
  "slowTick = \<lparr>atRequests = 5000, atTokens = 5000, atSessions = 5000, atHeaders = 6000\<rparr>"

definition sameInstant :: ClockReads where
  "sameInstant = \<lparr>atRequests = 5000, atTokens = 5000, atSessions = 5000, atHeaders = 5000\<rparr>"

text \<open>
  A configuration of the extended type: the constructor's values, a burst limit of three
  requests per second and an exemption list naming the loopback addresses.
\<close>

definition extConfig :: RateLimitConfigExt where
  "extConfig = \<lparr>requests_limit = 10, requests_windowMs = 60 * 60 * 1000,
     tokens_limit = 5000, tokens_windowMs = 24 * 60 * 60 * 1000,
     sessions_limit = 3,
     requests_burstLimit = 3, requests_burstWindowMs = 1000,
     sessions_windowMs = 24 * 60 * 60 * 1000,
     sessions_exemptIPs = [''127.0.0.1'', ''::1'']\<rparr>"

definition limitReached :: RateLimitStore where
  "limitReached = \<lparr>requests = [''10.0.0.1'' \<mapsto> \<lparr>resetTime = 3600000, count = 10\<rparr>],
     tokens = Map.empty, sessions = Map.empty\<rparr>"

definition budgetNearlySpent :: RateLimitStore where
  "budgetNearlySpent = \<lparr>requests = Map.empty,
     tokens = [''10.0.0.1'' \<mapsto> \<lparr>resetTime = 86400000, dailyUsage = 4999\<rparr>],
     sessions = Map.empty\<rparr>"

definition threeRequests :: "Op list" where
  "threeRequests = replicate 3 (CheckLimits ''10.0.0.1'' ''s1'' ''hello'' sameInstant)"

definition localSessions :: "Op list" where
  "localSessions =
     [CheckLimits ''127.0.0.1'' ''s1'' ''hello'' sameInstant,
      CheckLimits ''127.0.0.1'' ''s2'' ''hello'' sameInstant,
      CheckLimits ''127.0.0.1'' ''s3'' ''hello'' sameInstant]"

definition localFull :: RateLimitStore where
  "localFull =
     \<lparr>requests = [''127.0.0.1'' \<mapsto> \<lparr>resetTime = 3605000, count = 3\<rparr>],
      tokens = [''127.0.0.1'' \<mapsto> \<lparr>resetTime = 86405000, dailyUsage = 6\<rparr>],
      sessions = [''127.0.0.1'' \<mapsto>
         \<lparr>activeCount = 3, sessionIds = {|''s1'', ''s2'', ''s3''|}\<rparr>]\<rparr>"

definition remoteFull :: RateLimitStore where
  "remoteFull =
     \<lparr>requests = [''10.0.0.1'' \<mapsto> \<lparr>resetTime = 3605000, count = 3\<rparr>],
      tokens = [''10.0.0.1'' \<mapsto> \<lparr>resetTime = 86405000, dailyUsage = 6\<rparr>],
      sessions = Map.empty\<rparr>"

text \<open>
  One request as the chat route serves it: \<open>checkLimits\<close>, and on admission
  \<open>addRateLimitHeaders\<close> on the response.
\<close>

definition oneExchange :: "Op list" where
  "oneExchange =
     [CheckLimits ''10.0.0.1'' ''s1'' ''hello'' sameInstant,
      AddHeaders ''10.0.0.1'' (Some ''hello'') 5000 5000]"

definition fiveExchanges :: "Op list" where
  "fiveExchanges = oneExchange @ oneExchange @ oneExchange @ oneExchange @ oneExchange"

definition earlierUsage :: "Op list" where
  "earlierUsage = [CheckToken ''10.0.0.1'' 4000 5000]"

definition longMessage :: string where
  "longMessage = replicate 20001 (CHR ''a'')"

section \<open>The store's checks, case by case\<close>

lemma checkRequestLimit_expired:
  "requests st ip = Some d \<Longrightarrow> now \<ge> resetTime d \<Longrightarrow>
   checkRequestLimit cfg ip now st =
     (\<lparr>allowed = True, remaining = requests_limit cfg - 1,
       WindowVerdict.resetTime = now + requests_windowMs cfg\<rparr>,
      st\<lparr>requests := (requests st)(ip \<mapsto> \<lparr>resetTime = now + requests_windowMs cfg, count = 1\<rparr>)\<rparr>)"
  by (simp add: checkRequestLimit_def Let_def)

lemma checkTokenLimit_expired:
  "tokens st ip = Some e \<Longrightarrow> now \<ge> resetTime e \<Longrightarrow>
   checkTokenLimit cfg ip n now st =
     (\<lparr>allowed = (n \<le> tokens_limit cfg), remaining = max 0 (tokens_limit cfg - n),
       WindowVerdict.resetTime = now + tokens_windowMs cfg\<rparr>,
      st\<lparr>tokens := (tokens st)(ip \<mapsto> \<lparr>resetTime = now + tokens_windowMs cfg, dailyUsage = n\<rparr>)\<rparr>)"
  by (simp add: checkTokenLimit_def Let_def)

lemma checkSessionLimit_member:
  "sessions st ip = Some d \<Longrightarrow> sid |\<in>| sessionIds d \<Longrightarrow>
   checkSessionLimit cfg ip sid st =
     (\<lparr>allowed = True, remaining = sessions_limit cfg - activeCount d\<rparr>, st)"
  by (simp add: checkSessionLimit_def)

lemma checkSessionLimit_full:
  "sessions st ip = Some d \<Longrightarrow> sid |\<notin>| sessionIds d \<Longrightarrow> sessions_limit cfg \<le> activeCount d \<Longrightarrow>
   checkSessionLimit cfg ip sid st = (\<lparr>allowed = False, remaining = 0\<rparr>, st)"
  by (simp add: checkSessionLimit_def)

section \<open>What each operation leaves alone\<close>

lemma checkRequestLimit_frame:
  "tokens (snd (checkRequestLimit cfg ip now st)) = tokens st"
  "sessions (snd (checkRequestLimit cfg ip now st)) = sessions st"
  by (simp_all add: checkRequestLimit_def Let_def split: option.splits)

lemma checkTokenLimit_frame:
  "requests (snd (checkTokenLimit cfg ip n now st)) = requests st"
  "sessions (snd (checkTokenLimit cfg ip n now st)) = sessions st"
  by (simp_all add: checkTokenLimit_def Let_def split: option.splits)

lemma checkSessionLimit_frame:
  "requests (snd (checkSessionLimit cfg ip sid st)) = requests st"
  "tokens (snd (checkSessionLimit cfg ip sid st)) = tokens st"
  by (simp_all add: checkSessionLimit_def split: option.splits)

lemma removeSession_frame:
  "requests (removeSession ip sid st) = requests st"
  "tokens (removeSession ip sid st) = tokens st"
  by (simp_all add: removeSession_def Let_def split: option.splits)

lemma checkLimits_requests:
  "requests (snd (checkLimits cfg ip sid text corsH ck st))
     = requests (snd (checkRequestLimit cfg ip (atRequests ck) st))"
  by (simp add: checkLimits_def Let_def split_beta checkTokenLimit_frame checkSessionLimit_frame)

lemma checkLimits_sessions:
  "sessions (snd (checkLimits cfg ip sid text corsH ck st)) = sessions st
   \<or> (\<exists>st'. sessions st' = sessions st
        \<and> sessions (snd (checkLimits cfg ip sid text corsH ck st))
            = sessions (snd (checkSessionLimit cfg ip sid st')))"
proof -
  let ?s1 = "snd (checkRequestLimit cfg ip (atRequests ck) st)"
  let ?s2 = "snd (checkTokenLimit cfg ip (estimateTokens text) (atTokens ck) ?s1)"
  have "sessions ?s2 = sessions st"
    by (simp add: checkTokenLimit_frame checkRequestLimit_frame)
  moreover have "sessions (snd (checkLimits cfg ip sid text corsH ck st)) = sessions st
     \<or> sessions (snd (checkLimits cfg ip sid text corsH ck st))
            = sessions (snd (checkSessionLimit cfg ip sid ?s2))"
    by (simp add: checkLimits_def Let_def split_beta checkTokenLimit_frame checkRequestLimit_frame)
  ultimately show ?thesis by blast
qed

lemma addRateLimitHeaders_requests:
  "requests (snd (addRateLimitHeaders cfg ip text t1 t2 st))
     = requests (snd (checkRequestLimit cfg ip t1 st))"
  by (simp add: addRateLimitHeaders_def Let_def split_beta checkTokenLimit_frame)

lemma addRateLimitHeaders_sessions:
  "sessions (snd (addRateLimitHeaders cfg ip text t1 t2 st)) = sessions st"
  by (simp add: addRateLimitHeaders_def Let_def split_beta checkTokenLimit_frame checkRequestLimit_frame)

lemma checkSessionLimit_keeps_full:
  assumes "sessions st ip = Some d" and "sessions_limit cfg \<le> activeCount d"
  shows "sessions (snd (checkSessionLimit cfg ip' sid st)) ip = Some d"
  using assms by (auto simp: checkSessionLimit_def split: option.splits)

lemma removeSession_keeps:
  assumes "sessions st ip = Some d" and "\<not> (ip' = ip \<and> sid |\<in>| sessionIds d)"
  shows "sessions (removeSession ip' sid st) ip = Some d"
  using assms by (auto simp: removeSession_def Let_def split: option.splits)

lemma checkLimits_keeps_full:
  assumes "sessions st ip = Some d" and "sessions_limit cfg \<le> activeCount d"
  shows "sessions (snd (checkLimits cfg ip' sid msg corsH ck st)) ip = Some d"
proof -
  from checkLimits_sessions [of cfg ip' sid msg corsH ck st]
  show ?thesis
  proof
    assume "sessions (snd (checkLimits cfg ip' sid msg corsH ck st)) = sessions st"
    with assms(1) show ?thesis by simp
  next
    assume "\<exists>st'. sessions st' = sessions st
        \<and> sessions (snd (checkLimits cfg ip' sid msg corsH ck st))
            = sessions (snd (checkSessionLimit cfg ip' sid st'))"
    then obtain st' where a: "sessions st' = sessions st"
      and b: "sessions (snd (checkLimits cfg ip' sid msg corsH ck st))
            = sessions (snd (checkSessionLimit cfg ip' sid st'))" by blast
    from a assms(1) have "sessions st' ip = Some d" by simp
    then have "sessions (snd (checkSessionLimit cfg ip' sid st')) ip = Some d"
      using assms(2) by (rule checkSessionLimit_keeps_full)
    with b show ?thesis by simp
  qed
qed

section \<open>Window restart\<close>

text \<open>
  C8. Once the clock has reached the stored \<open>resetTime\<close> of a key's entry, the next
  request check replaces it by a window with \<open>count = 1\<close>, and the next token check by a
  window whose \<open>dailyUsage\<close> is that request's estimate, whatever had accumulated; in
  both cases the new reset time is the clock reading plus the configured window length.
\<close>

theorem expired_window_starts_fresh:
  "(requests st ip = Some d \<and> now \<ge> resetTime d \<longrightarrow>
      requests (snd (checkRequestLimit cfg ip now st)) ip
        = Some \<lparr>resetTime = now + requests_windowMs cfg, count = 1\<rparr>
      \<and> WindowVerdict.resetTime (fst (checkRequestLimit cfg ip now st))
        = now + requests_windowMs cfg)
   \<and> (tokens st ip = Some e \<and> now \<ge> resetTime e \<longrightarrow>
      tokens (snd (checkTokenLimit cfg ip n now st)) ip
        = Some \<lparr>resetTime = now + tokens_windowMs cfg, dailyUsage = n\<rparr>
      \<and> WindowVerdict.resetTime (fst (checkTokenLimit cfg ip n now st))
        = now + tokens_windowMs cfg)"
  by (simp add: checkRequestLimit_expired checkTokenLimit_expired)

theorem expired_window_starts_fresh_witness:
  "requests staleStore ''10.0.0.1'' = Some \<lparr>resetTime = 1000, count = 7\<rparr> \<and> (1000::int) \<ge> 1000
   \<and> tokens staleStore ''10.0.0.1'' = Some \<lparr>resetTime = 1000, dailyUsage = 4000\<rparr>
   \<and> requests (snd (checkRequestLimit config ''10.0.0.1'' 1000 staleStore)) ''10.0.0.1''
        = Some \<lparr>resetTime = 3601000, count = 1\<rparr>
   \<and> tokens (snd (checkTokenLimit config ''10.0.0.1'' 250 1000 staleStore)) ''10.0.0.1''
        = Some \<lparr>resetTime = 86401000, dailyUsage = 250\<rparr>"
  using expired_window_starts_fresh [of staleStore "''10.0.0.1''" "\<lparr>resetTime = 1000, count = 7\<rparr>" 1000
      config "\<lparr>resetTime = 1000, dailyUsage = 4000\<rparr>" 250]
  by (simp add: staleStore_def config_def)

section \<open>Sessions\<close>

text \<open>
  C7. When the key's session set already contains the id, any number \<open>n\<close> of further
  \<open>checkSessionLimit\<close> calls with that id are all allowed and leave the store, hence
  the session set and its size, exactly as it was.
\<close>

theorem admitSession_idempotent:
  assumes "sessions st ip = Some d" and "sid |\<in>| sessionIds d"
  shows "admitAgain cfg ip sid n st =
           (replicate n \<lparr>allowed = True, remaining = sessions_limit cfg - activeCount d\<rparr>, st)"
proof (induction n)
  case 0
  show ?case by simp
next
  case (Suc n)
  from assms have "checkSessionLimit cfg ip sid st =
      (\<lparr>allowed = True, remaining = sessions_limit cfg - activeCount d\<rparr>, st)"
    by (rule checkSessionLimit_member)
  with Suc show ?case by simp
qed

theorem admitSession_idempotent_witness:
  "sessions twoSessions ''10.0.0.1'' = Some \<lparr>activeCount = 2, sessionIds = {|''s1'', ''s2''|}\<rparr>
   \<and> ''s2'' |\<in>| {|''s1'', ''s2''|}
   \<and> admitAgain config ''10.0.0.1'' ''s2'' 3 twoSessions =
        ([\<lparr>allowed = True, remaining = 1\<rparr>, \<lparr>allowed = True, remaining = 1\<rparr>,
          \<lparr>allowed = True, remaining = 1\<rparr>], twoSessions)"
  using admitSession_idempotent [of twoSessions "''10.0.0.1''"
      "\<lparr>activeCount = 2, sessionIds = {|''s1'', ''s2''|}\<rparr>" "''s2''" config 3]
  by (simp add: twoSessions_def config_def numeral_3_eq_3)

lemma step_keeps_full:
  assumes "sessions st ip = Some d" and "sessions_limit cfg \<le> activeCount d"
    and "\<not> releases ip (sessionIds d) oper"
  shows "sessions (step cfg st oper) ip = Some d"
proof (cases oper)
  case (CheckRequest ip' now)
  with assms(1) show ?thesis by (simp add: checkRequestLimit_frame)
next
  case (CheckToken ip' n now)
  with assms(1) show ?thesis by (simp add: checkTokenLimit_frame)
next
  case (CheckSession ip' sid)
  with assms(1,2) show ?thesis by (simp add: checkSessionLimit_keeps_full)
next
  case (RemoveSession ip' sid)
  with assms(1,3) show ?thesis by (simp add: removeSession_keeps)
next
  case (SweepRequests now)
  with assms(1) show ?thesis by simp
next
  case (SweepTokens now)
  with assms(1) show ?thesis by simp
next
  case (CheckLimits ip' sid msg ck)
  with assms(1,2) show ?thesis by (simp add: checkLimits_keeps_full)
next
  case (AddHeaders ip' msg t1 t2)
  with assms(1) show ?thesis by (simp add: addRateLimitHeaders_sessions)
qed

lemma run_keeps_full:
  assumes "sessions_limit cfg \<le> activeCount d"
  shows "sessions st ip = Some d \<Longrightarrow> \<forall>oper \<in> set ops. \<not> releases ip (sessionIds d) oper
     \<Longrightarrow> sessions (run cfg ops st) ip = Some d"
  unfolding run_def
  by (induction ops arbitrary: st) (simp_all add: step_keeps_full [OF _ assms])

text \<open>
  C9. Session entries are not reset by time. If a key's \<open>activeCount\<close> has reached the
  session limit, then after any sequence of operations, at any clock readings, that
  contains no \<open>removeSession\<close> of a member of that key's set (sweeps, expired windows and
  checks for any key included), the key's session entry is unchanged and a check with an
  id outside the set is still rejected.
\<close>

theorem full_session_set_never_expires:
  assumes "sessions st ip = Some d" and "sessions_limit cfg \<le> activeCount d"
    and "\<forall>oper \<in> set ops. \<not> releases ip (sessionIds d) oper"
    and "sid |\<notin>| sessionIds d"
  shows "sessions (run cfg ops st) ip = Some d
     \<and> checkSessionLimit cfg ip sid (run cfg ops st)
          = (\<lparr>allowed = False, remaining = 0\<rparr>, run cfg ops st)"
proof -
  have keep: "sessions (run cfg ops st) ip = Some d"
    using assms(1,3) by (rule run_keeps_full [OF assms(2)])
  then have "checkSessionLimit cfg ip sid (run cfg ops st)
          = (\<lparr>allowed = False, remaining = 0\<rparr>, run cfg ops st)"
    using assms(2,4) by (simp add: checkSessionLimit_def)
  with keep show ?thesis by simp
qed

theorem full_session_set_never_expires_witness:
  "sessions fullSessions ''10.0.0.1''
      = Some \<lparr>activeCount = 3, sessionIds = {|''s1'', ''s2'', ''s3''|}\<rparr>
   \<and> sessions_limit config \<le> 3
   \<and> list_all (\<lambda>oper. \<not> releases ''10.0.0.1'' {|''s1'', ''s2'', ''s3''|} oper) laterOps
   \<and> ''s6'' |\<notin>| {|''s1'', ''s2'', ''s3''|}
   \<and> sessions (run config laterOps fullSessions) ''10.0.0.1''
      = Some \<lparr>activeCount = 3, sessionIds = {|''s1'', ''s2'', ''s3''|}\<rparr>
   \<and> checkSessionLimit config ''10.0.0.1'' ''s6'' (run config laterOps fullSessions)
      = (\<lparr>allowed = False, remaining = 0\<rparr>, run config laterOps fullSessions)"
proof -
  have h1: "sessions fullSessions ''10.0.0.1''
      = Some \<lparr>activeCount = 3, sessionIds = {|''s1'', ''s2'', ''s3''|}\<rparr>"
    by (simp add: fullSessions_def)
  have h2: "sessions_limit config
      \<le> activeCount \<lparr>activeCount = 3, sessionIds = {|''s1'', ''s2'', ''s3''|}\<rparr>"
    by (simp add: config_def)
  have h3: "\<forall>oper \<in> set laterOps. \<not> releases ''10.0.0.1''
      (sessionIds \<lparr>activeCount = 3, sessionIds = {|''s1'', ''s2'', ''s3''|}\<rparr>) oper"
    by (simp add: laterOps_def)
  have h4: "''s6'' |\<notin>| sessionIds \<lparr>activeCount = 3, sessionIds = {|''s1'', ''s2'', ''s3''|}\<rparr>"
    by simp
  from full_session_set_never_expires [OF h1 h2 h3 h4] h1 h2 h3 h4
  show ?thesis by (simp add: list_all_iff)
qed

section \<open>The request count stays within the limit\<close>

lemma requestsBounded_cong:
  "requests st' = requests st \<Longrightarrow> requestsBounded cfg st \<Longrightarrow> requestsBounded cfg st'"
  by (simp add: requestsBounded_def)

lemma checkRequestLimit_bounded:
  assumes "1 \<le> requests_limit cfg" and "requestsBounded cfg st"
  shows "requestsBounded cfg (snd (checkRequestLimit cfg ip now st))"
  using assms
  by (auto simp: requestsBounded_def checkRequestLimit_def Let_def split: option.splits if_splits)

lemma sweep_bounded:
  "requestsBounded cfg st \<Longrightarrow> requestsBounded cfg (st\<lparr>requests := cleanExpiredEntries now (requests st)\<rparr>)"
  by (auto simp: requestsBounded_def cleanExpiredEntries_def split: option.splits if_splits)

lemma step_bounded:
  assumes "1 \<le> requests_limit cfg" and "requestsBounded cfg st"
  shows "requestsBounded cfg (step cfg st oper)"
proof (cases oper)
  case (CheckRequest ip now)
  with assms show ?thesis by (simp add: checkRequestLimit_bounded)
next
  case (CheckToken ip n now)
  with assms(2) show ?thesis by (simp add: requestsBounded_cong [OF checkTokenLimit_frame(1)])
next
  case (CheckSession ip sid)
  with assms(2) show ?thesis by (simp add: requestsBounded_cong [OF checkSessionLimit_frame(1)])
next
  case (RemoveSession ip sid)
  with assms(2) show ?thesis by (simp add: requestsBounded_cong [OF removeSession_frame(1)])
next
  case (SweepRequests now)
  with assms(2) show ?thesis by (simp add: sweep_bounded)
next
  case (SweepTokens now)
  with assms(2) show ?thesis by (simp add: requestsBounded_def)
next
  case (CheckLimits ip sid msg ck)
  have "requestsBounded cfg (snd (checkRequestLimit cfg ip (atRequests ck) st))"
    using assms by (rule checkRequestLimit_bounded)
  then show ?thesis
    unfolding CheckLimits step.simps by (rule requestsBounded_cong [OF checkLimits_requests])
next
  case (AddHeaders ip msg t1 t2)
  have "requestsBounded cfg (snd (checkRequestLimit cfg ip t1 st))"
    using assms by (rule checkRequestLimit_bounded)
  then show ?thesis
    unfolding AddHeaders step.simps by (rule requestsBounded_cong [OF addRateLimitHeaders_requests])
qed

lemma run_bounded:
  assumes "1 \<le> requests_limit cfg"
  shows "requestsBounded cfg st \<Longrightarrow> requestsBounded cfg (run cfg ops st)"
  unfolding run_def
  by (induction ops arbitrary: st) (simp_all add: step_bounded [OF assms])

text \<open>
  C6. Starting from the empty store of the constructor, after every sequence of
  operations the request count stored for any key is at most the configured request
  limit (at every clock reading, so in particular while the window is active). The
  limit is taken to be at least 1, as the constructor's 10 is: a fresh window starts
  at count 1.
\<close>

theorem request_count_within_limit:
  assumes "1 \<le> requests_limit cfg"
    and "requests (run cfg ops emptyStore) ip = Some d"
  shows "count d \<le> requests_limit cfg"
proof -
  have "requestsBounded cfg emptyStore"
    by (simp add: requestsBounded_def emptyStore_def)
  then have "requestsBounded cfg (run cfg ops emptyStore)"
    by (rule run_bounded [OF assms(1)])
  with assms(2) show ?thesis
    by (simp add: requestsBounded_def)
qed

theorem request_count_within_limit_witness:
  "1 \<le> requests_limit config
   \<and> requests (run config elevenRequests emptyStore) ''10.0.0.1''
        = Some \<lparr>resetTime = 3605000, count = 10\<rparr>
   \<and> count \<lparr>resetTime = 3605000, count = 10\<rparr> \<le> requests_limit config"
  using request_count_within_limit [of config elevenRequests "''10.0.0.1''"
      "\<lparr>resetTime = 3605000, count = 10\<rparr>"]
  by (simp add: elevenRequests_def run_def emptyStore_def config_def checkRequestLimit_def
      Let_def eval_nat_numeral)

section \<open>The order of the admission check\<close>

lemma checkLimits_cases:
  "checkLimits cfg ip sid msg corsH ck st =
     (let rq = checkRequestLimit cfg ip (atRequests ck) st;
          tk = checkTokenLimit cfg ip (estimateTokens msg) (atTokens ck) (snd rq);
          ss = checkSessionLimit cfg ip sid (snd tk)
      in if \<not> allowed (fst rq) then
           (Some (createRateLimitResponse
              \<lparr>allowed = False, remaining = remaining (fst rq),
               WindowVerdict.resetTime = WindowVerdict.resetTime (fst rq),
               limit = requests_limit cfg, type = Requests\<rparr> corsH (atHeaders ck)), snd rq)
         else if \<not> allowed (fst tk) then
           (Some (createRateLimitResponse
              \<lparr>allowed = False, remaining = remaining (fst tk),
               WindowVerdict.resetTime = WindowVerdict.resetTime (fst tk),
               limit = tokens_limit cfg, type = Tokens\<rparr> corsH (atHeaders ck)), snd tk)
         else if \<not> allowed (fst ss) then
           (Some (createRateLimitResponse
              \<lparr>allowed = False, remaining = remaining (fst ss),
               WindowVerdict.resetTime = atSessions ck + 60000,
               limit = sessions_limit cfg, type = Sessions\<rparr> corsH (atHeaders ck)), snd ss)
         else (None, snd ss))"
  by (simp add: checkLimits_def Let_def split_beta)

lemma checkRequestLimit_verdict_local:
  "requests st2 ip2 = requests st ip \<Longrightarrow>
   fst (checkRequestLimit cfg ip2 now st2) = fst (checkRequestLimit cfg ip now st)"
  by (simp add: checkRequestLimit_def Let_def split: option.splits)

lemma checkTokenLimit_verdict_local:
  "tokens st2 ip2 = tokens st ip \<Longrightarrow>
   fst (checkTokenLimit cfg ip2 n now st2) = fst (checkTokenLimit cfg ip n now st)"
  by (simp add: checkTokenLimit_def Let_def split: option.splits)

lemma checkLimits_request_rejection:
  assumes "\<not> allowed (fst (checkRequestLimit cfg ip (atRequests ck) st))"
  shows "map_option (type \<circ> body) (fst (checkLimits cfg ip sid msg corsH ck st)) = Some Requests"
    and "snd (checkLimits cfg ip sid msg corsH ck st)
           = snd (checkRequestLimit cfg ip (atRequests ck) st)"
    and "tokens (snd (checkLimits cfg ip sid msg corsH ck st)) = tokens st"
    and "sessions (snd (checkLimits cfg ip sid msg corsH ck st)) = sessions st"
  using assms
  by (simp_all add: checkLimits_cases Let_def createRateLimitResponse_def checkRequestLimit_frame)

lemma checkLimits_request_rejection_blind:
  assumes "\<not> allowed (fst (checkRequestLimit cfg ip (atRequests ck) st))"
    and "requests st2 = requests st"
  shows "fst (checkLimits cfg ip sid msg corsH ck st2) = fst (checkLimits cfg ip sid msg corsH ck st)"
proof -
  have "fst (checkRequestLimit cfg ip (atRequests ck) st2)
      = fst (checkRequestLimit cfg ip (atRequests ck) st)"
    using assms(2) by (intro checkRequestLimit_verdict_local) simp
  with assms(1) show ?thesis
    by (simp add: checkLimits_cases Let_def)
qed

lemma checkLimits_token_rejection:
  assumes "allowed (fst (checkRequestLimit cfg ip (atRequests ck) st))"
    and "\<not> allowed (fst (checkTokenLimit cfg ip (estimateTokens msg) (atTokens ck)
           (snd (checkRequestLimit cfg ip (atRequests ck) st))))"
  shows "map_option (type \<circ> body) (fst (checkLimits cfg ip sid msg corsH ck st)) = Some Tokens"
    and "snd (checkLimits cfg ip sid msg corsH ck st)
           = snd (checkTokenLimit cfg ip (estimateTokens msg) (atTokens ck)
               (snd (checkRequestLimit cfg ip (atRequests ck) st)))"
    and "sessions (snd (checkLimits cfg ip sid msg corsH ck st)) = sessions st"
  using assms
  by (simp_all add: checkLimits_cases Let_def createRateLimitResponse_def
      checkRequestLimit_frame checkTokenLimit_frame)

lemma checkLimits_token_rejection_blind:
  assumes "allowed (fst (checkRequestLimit cfg ip (atRequests ck) st))"
    and "\<not> allowed (fst (checkTokenLimit cfg ip (estimateTokens msg) (atTokens ck)
           (snd (checkRequestLimit cfg ip (atRequests ck) st))))"
    and "requests st2 = requests st" and "tokens st2 = tokens st"
  shows "fst (checkLimits cfg ip sid msg corsH ck st2) = fst (checkLimits cfg ip sid msg corsH ck st)"
proof -
  let ?rq = "checkRequestLimit cfg ip (atRequests ck) st"
  let ?rq2 = "checkRequestLimit cfg ip (atRequests ck) st2"
  have r: "fst ?rq2 = fst ?rq"
    using assms(3) by (intro checkRequestLimit_verdict_local) simp
  have "tokens (snd ?rq2) ip = tokens (snd ?rq) ip"
    using assms(4) by (simp add: checkRequestLimit_frame)
  then have t: "fst (checkTokenLimit cfg ip (estimateTokens msg) (atTokens ck) (snd ?rq2))
      = fst (checkTokenLimit cfg ip (estimateTokens msg) (atTokens ck) (snd ?rq))"
    by (rule checkTokenLimit_verdict_local)
  from assms(1,2) r t show ?thesis
    by (simp add: checkLimits_cases Let_def)
qed

lemma checkLimits_session_rejection:
  assumes "allowed (fst (checkRequestLimit cfg ip (atRequests ck) st))"
    and "allowed (fst (checkTokenLimit cfg ip (estimateTokens msg) (atTokens ck)
           (snd (checkRequestLimit cfg ip (atRequests ck) st))))"
    and "\<not> allowed (fst (checkSessionLimit cfg ip sid
           (snd (checkTokenLimit cfg ip (estimateTokens msg) (atTokens ck)
             (snd (checkRequestLimit cfg ip (atRequests ck) st))))))"
  shows "map_option (type \<circ> body) (fst (checkLimits cfg ip sid msg corsH ck st)) = Some Sessions"
    and "snd (checkLimits cfg ip sid msg corsH ck st)
           = snd (checkSessionLimit cfg ip sid
               (snd (checkTokenLimit cfg ip (estimateTokens msg) (atTokens ck)
                 (snd (checkRequestLimit cfg ip (atRequests ck) st)))))"
  using assms
  by (simp_all add: checkLimits_cases Let_def createRateLimitResponse_def)

lemma checkLimits_admission:
  assumes "allowed (fst (checkRequestLimit cfg ip (atRequests ck) st))"
    and "allowed (fst (checkTokenLimit cfg ip (estimateTokens msg) (atTokens ck)
           (snd (checkRequestLimit cfg ip (atRequests ck) st))))"
    and "allowed (fst (checkSessionLimit cfg ip sid
           (snd (checkTokenLimit cfg ip (estimateTokens msg) (atTokens ck)
             (snd (checkRequestLimit cfg ip (atRequests ck) st))))))"
  shows "checkLimits cfg ip sid msg corsH ck st
           = (None, snd (checkSessionLimit cfg ip sid
               (snd (checkTokenLimit cfg ip (estimateTokens msg) (atTokens ck)
                 (snd (checkRequestLimit cfg ip (atRequests ck) st))))))"
  using assms
  by (simp add: checkLimits_cases Let_def)

text \<open>
  C4 (amended). \<open>checkLimits\<close> evaluates the request-rate check, then the usage-budget
  check, then the session check; there is no burst check. The first check that rejects
  decides the response's type and ends the evaluation: the store is left as that check
  left it, the maps of the later dimensions are unchanged, and the response is the same
  whatever those maps hold. With no rejection the result is \<open>null\<close>.
\<close>

theorem checkLimits_order:
  "let rq = checkRequestLimit cfg ip (atRequests ck) st;
       tk = checkTokenLimit cfg ip (estimateTokens msg) (atTokens ck) (snd rq);
       ss = checkSessionLimit cfg ip sid (snd tk);
       out = checkLimits cfg ip sid msg corsH ck st
   in (\<not> allowed (fst rq) \<longrightarrow>
         map_option (type \<circ> body) (fst out) = Some Requests \<and> snd out = snd rq
         \<and> tokens (snd out) = tokens st \<and> sessions (snd out) = sessions st
         \<and> (\<forall>st2. requests st2 = requests st \<longrightarrow>
               fst (checkLimits cfg ip sid msg corsH ck st2) = fst out))
    \<and> (allowed (fst rq) \<and> \<not> allowed (fst tk) \<longrightarrow>
         map_option (type \<circ> body) (fst out) = Some Tokens \<and> snd out = snd tk
         \<and> sessions (snd out) = sessions st
         \<and> (\<forall>st2. requests st2 = requests st \<and> tokens st2 = tokens st \<longrightarrow>
               fst (checkLimits cfg ip sid msg corsH ck st2) = fst out))
    \<and> (allowed (fst rq) \<and> allowed (fst tk) \<and> \<not> allowed (fst ss) \<longrightarrow>
         map_option (type \<circ> body) (fst out) = Some Sessions \<and> snd out = snd ss)
    \<and> (allowed (fst rq) \<and> allowed (fst tk) \<and> allowed (fst ss) \<longrightarrow>
         out = (None, snd ss))"
  unfolding Let_def
  using checkLimits_request_rejection [of cfg ip ck st sid msg corsH]
    checkLimits_request_rejection_blind [of cfg ip ck st _ sid msg corsH]
    checkLimits_token_rejection [of cfg ip ck st msg sid corsH]
    checkLimits_token_rejection_blind [of cfg ip ck st msg _ sid corsH]
    checkLimits_session_rejection [of cfg ip ck st msg sid corsH]
    checkLimits_admission [of cfg ip ck st msg sid corsH]
  by blast

theorem checkLimits_order_witness:
  "\<not> allowed (fst (checkRequestLimit config ''10.0.0.1'' (atRequests tick) limitReached))
   \<and> map_option (type \<circ> body)
        (fst (checkLimits config ''10.0.0.1'' ''s1'' ''hello'' [] tick limitReached))
      = Some Requests
   \<and> tokens (snd (checkLimits config ''10.0.0.1'' ''s1'' ''hello'' [] tick limitReached))
      = tokens limitReached
   \<and> sessions (snd (checkLimits config ''10.0.0.1'' ''s1'' ''hello'' [] tick limitReached))
      = sessions limitReached
   \<and> allowed (fst (checkRequestLimit config ''10.0.0.1'' (atRequests tick) budgetNearlySpent))
   \<and> \<not> allowed (fst (checkTokenLimit config ''10.0.0.1'' (estimateTokens ''hello'') (atTokens tick)
        (snd (checkRequestLimit config ''10.0.0.1'' (atRequests tick) budgetNearlySpent))))
   \<and> map_option (type \<circ> body)
        (fst (checkLimits config ''10.0.0.1'' ''s1'' ''hello'' [] tick budgetNearlySpent))
      = Some Tokens
   \<and> sessions (snd (checkLimits config ''10.0.0.1'' ''s1'' ''hello'' [] tick budgetNearlySpent))
      = sessions budgetNearlySpent
   \<and> \<not> allowed (fst (checkSessionLimit config ''10.0.0.1'' ''s4''
        (snd (checkTokenLimit config ''10.0.0.1'' (estimateTokens ''hello'') (atTokens tick)
          (snd (checkRequestLimit config ''10.0.0.1'' (atRequests tick) fullSessions))))))
   \<and> map_option (type \<circ> body)
        (fst (checkLimits config ''10.0.0.1'' ''s4'' ''hello'' [] tick fullSessions))
      = Some Sessions
   \<and> fst (checkLimits config ''10.0.0.1'' ''s1'' ''hello'' [] tick emptyStore) = None"
proof -
  have a: "\<not> allowed (fst (checkRequestLimit config ''10.0.0.1'' (atRequests tick) limitReached))"
    by (simp add: checkRequestLimit_def config_def tick_def limitReached_def)
  have b: "allowed (fst (checkRequestLimit config ''10.0.0.1'' (atRequests tick) budgetNearlySpent))
     \<and> \<not> allowed (fst (checkTokenLimit config ''10.0.0.1'' (estimateTokens ''hello'') (atTokens tick)
        (snd (checkRequestLimit config ''10.0.0.1'' (atRequests tick) budgetNearlySpent))))"
    by (simp add: checkRequestLimit_def checkTokenLimit_def estimateTokens_def Let_def
        config_def tick_def budgetNearlySpent_def)
  have c: "allowed (fst (checkRequestLimit config ''10.0.0.1'' (atRequests tick) fullSessions))
     \<and> allowed (fst (checkTokenLimit config ''10.0.0.1'' (estimateTokens ''hello'') (atTokens tick)
        (snd (checkRequestLimit config ''10.0.0.1'' (atRequests tick) fullSessions))))
     \<and> \<not> allowed (fst (checkSessionLimit config ''10.0.0.1'' ''s4''
        (snd (checkTokenLimit config ''10.0.0.1'' (estimateTokens ''hello'') (atTokens tick)
          (snd (checkRequestLimit config ''10.0.0.1'' (atRequests tick) fullSessions))))))"
    by (simp add: checkRequestLimit_def checkTokenLimit_def checkSessionLimit_def
        estimateTokens_def Let_def config_def tick_def fullSessions_def)
  have d: "allowed (fst (checkRequestLimit config ''10.0.0.1'' (atRequests tick) emptyStore))
     \<and> allowed (fst (checkTokenLimit config ''10.0.0.1'' (estimateTokens ''hello'') (atTokens tick)
        (snd (checkRequestLimit config ''10.0.0.1'' (atRequests tick) emptyStore))))
     \<and> allowed (fst (checkSessionLimit config ''10.0.0.1'' ''s1''
        (snd (checkTokenLimit config ''10.0.0.1'' (estimateTokens ''hello'') (atTokens tick)
          (snd (checkRequestLimit config ''10.0.0.1'' (atRequests tick) emptyStore))))))"
    by (simp add: checkRequestLimit_def checkTokenLimit_def checkSessionLimit_def
        estimateTokens_def Let_def config_def tick_def emptyStore_def)
  note o1 = checkLimits_order [of config "''10.0.0.1''" tick limitReached "''hello''" "''s1''" "[]",
      unfolded Let_def]
  note o2 = checkLimits_order [of config "''10.0.0.1''" tick budgetNearlySpent "''hello''" "''s1''" "[]",
      unfolded Let_def]
  note o3 = checkLimits_order [of config "''10.0.0.1''" tick fullSessions "''hello''" "''s4''" "[]",
      unfolded Let_def]
  note o4 = checkLimits_order [of config "''10.0.0.1''" tick emptyStore "''hello''" "''s1''" "[]",
      unfolded Let_def]
  from o1 a have r1: "map_option (type \<circ> body)
        (fst (checkLimits config ''10.0.0.1'' ''s1'' ''hello'' [] tick limitReached))
      = Some Requests
   \<and> tokens (snd (checkLimits config ''10.0.0.1'' ''s1'' ''hello'' [] tick limitReached))
      = tokens limitReached
   \<and> sessions (snd (checkLimits config ''10.0.0.1'' ''s1'' ''hello'' [] tick limitReached))
      = sessions limitReached"
    by blast
  from o2 b have r2: "map_option (type \<circ> body)
        (fst (checkLimits config ''10.0.0.1'' ''s1'' ''hello'' [] tick budgetNearlySpent))
      = Some Tokens
   \<and> sessions (snd (checkLimits config ''10.0.0.1'' ''s1'' ''hello'' [] tick budgetNearlySpent))
      = sessions budgetNearlySpent"
    by blast
  from o3 c have r3: "map_option (type \<circ> body)
        (fst (checkLimits config ''10.0.0.1'' ''s4'' ''hello'' [] tick fullSessions))
      = Some Sessions"
    by blast
  from o4 d have r4: "fst (checkLimits config ''10.0.0.1'' ''s1'' ''hello'' [] tick emptyStore) = None"
    by simp
  from a b c r1 r2 r3 r4 show ?thesis
    by blast
qed

lemmas facade_eval =
  checkLimits_def Let_def checkRequestLimit_def checkTokenLimit_def
  checkSessionLimit_def estimateTokens_def createRateLimitResponse_def
  createRateLimitHeaders_def ceilSeconds_def

lemma threeRequests_store:
  "run extConfig threeRequests emptyStore =
     \<lparr>requests = [''10.0.0.1'' \<mapsto> \<lparr>resetTime = 3605000, count = 3\<rparr>],
      tokens = [''10.0.0.1'' \<mapsto> \<lparr>resetTime = 86405000, dailyUsage = 6\<rparr>],
      sessions = [''10.0.0.1'' \<mapsto> \<lparr>activeCount = 1, sessionIds = {|''s1''|}\<rparr>]\<rparr>"
  by (simp add: threeRequests_def run_def emptyStore_def facade_eval extConfig_def
      sameInstant_def eval_nat_numeral)

text \<open>
  Against C4 as stated: with a burst limit of three requests per second configured,
  a fourth request of the same key at the same clock reading is admitted. No burst
  dimension is evaluated before the request-rate check.
\<close>

theorem burst_is_not_checked:
  "requests_burstLimit extConfig = 3 \<and> requests_burstWindowMs extConfig = 1000
   \<and> fst (checkLimits extConfig ''10.0.0.1'' ''s1'' ''hello'' [] sameInstant
        (run extConfig threeRequests emptyStore)) = None"
  by (simp add: threeRequests_store) (simp add: facade_eval extConfig_def sameInstant_def)

section \<open>No exemption from the session cap\<close>

lemma localSessions_store: "run extConfig localSessions emptyStore = localFull"
  by (simp add: localSessions_def localFull_def run_def emptyStore_def facade_eval extConfig_def
      sameInstant_def finsert_commute)

lemma checks_ignore_exemptIPs:
  "checkRequestLimit (cfg\<lparr>sessions_exemptIPs := xs\<rparr>) ip now st = checkRequestLimit cfg ip now st"
  "checkTokenLimit (cfg\<lparr>sessions_exemptIPs := xs\<rparr>) ip n now st = checkTokenLimit cfg ip n now st"
  "checkSessionLimit (cfg\<lparr>sessions_exemptIPs := xs\<rparr>) ip sid st = checkSessionLimit cfg ip sid st"
  by (simp_all add: checkRequestLimit_def checkTokenLimit_def checkSessionLimit_def
      cong: if_cong option.case_cong)

lemma checkLimits_ignores_exemptIPs:
  "checkLimits (cfg\<lparr>sessions_exemptIPs := xs\<rparr>) ip sid msg corsH ck st
     = checkLimits cfg ip sid msg corsH ck st"
  by (simp add: checkLimits_cases Let_def checks_ignore_exemptIPs cong: if_cong)

text \<open>
  C5 (amended). No key bypasses the session cap. The checks read no exemption list
  (changing \<open>exemptIPs\<close> changes nothing), so any key, listed or not, whose
  \<open>activeCount\<close> has reached the session limit is rejected on a new session id. The
  request-rate and usage-budget checks apply to every key alike: their verdict depends
  only on the entry stored for the key.
\<close>

theorem session_cap_without_exemption:
  "checkLimits (cfg\<lparr>sessions_exemptIPs := xs\<rparr>) ip sid msg corsH ck st
     = checkLimits cfg ip sid msg corsH ck st
   \<and> (sessions st ip = Some d \<and> sid |\<notin>| sessionIds d \<and> sessions_limit cfg \<le> activeCount d
        \<longrightarrow> checkSessionLimit cfg ip sid st = (\<lparr>allowed = False, remaining = 0\<rparr>, st))
   \<and> (requests st2 ip2 = requests st ip
        \<longrightarrow> fst (checkRequestLimit cfg ip2 now st2) = fst (checkRequestLimit cfg ip now st))
   \<and> (tokens st2 ip2 = tokens st ip
        \<longrightarrow> fst (checkTokenLimit cfg ip2 n now st2) = fst (checkTokenLimit cfg ip n now st))"
proof (intro conjI impI)
  show "checkLimits (cfg\<lparr>sessions_exemptIPs := xs\<rparr>) ip sid msg corsH ck st
     = checkLimits cfg ip sid msg corsH ck st"
    by (rule checkLimits_ignores_exemptIPs)
next
  assume "sessions st ip = Some d \<and> sid |\<notin>| sessionIds d \<and> sessions_limit cfg \<le> activeCount d"
  then show "checkSessionLimit cfg ip sid st = (\<lparr>allowed = False, remaining = 0\<rparr>, st)"
    by (simp add: checkSessionLimit_full)
next
  assume "requests st2 ip2 = requests st ip"
  then show "fst (checkRequestLimit cfg ip2 now st2) = fst (checkRequestLimit cfg ip now st)"
    by (rule checkRequestLimit_verdict_local)
next
  assume "tokens st2 ip2 = tokens st ip"
  then show "fst (checkTokenLimit cfg ip2 n now st2) = fst (checkTokenLimit cfg ip n now st)"
    by (rule checkTokenLimit_verdict_local)
qed

theorem session_cap_without_exemption_witness:
  "sessions localFull ''127.0.0.1''
      = Some \<lparr>activeCount = 3, sessionIds = {|''s1'', ''s2'', ''s3''|}\<rparr>
   \<and> ''s4'' |\<notin>| {|''s1'', ''s2'', ''s3''|}
   \<and> sessions_limit extConfig \<le> 3
   \<and> checkSessionLimit extConfig ''127.0.0.1'' ''s4'' localFull
      = (\<lparr>allowed = False, remaining = 0\<rparr>, localFull)
   \<and> requests remoteFull ''10.0.0.1'' = requests localFull ''127.0.0.1''
   \<and> fst (checkRequestLimit extConfig ''10.0.0.1'' 6000 remoteFull)
      = fst (checkRequestLimit extConfig ''127.0.0.1'' 6000 localFull)
   \<and> tokens remoteFull ''10.0.0.1'' = tokens localFull ''127.0.0.1''
   \<and> fst (checkTokenLimit extConfig ''10.0.0.1'' 40 6000 remoteFull)
      = fst (checkTokenLimit extConfig ''127.0.0.1'' 40 6000 localFull)"
proof -
  have h1: "sessions localFull ''127.0.0.1''
      = Some \<lparr>activeCount = 3, sessionIds = {|''s1'', ''s2'', ''s3''|}\<rparr>
     \<and> ''s4'' |\<notin>| sessionIds \<lparr>activeCount = 3, sessionIds = {|''s1'', ''s2'', ''s3''|}\<rparr>
     \<and> sessions_limit extConfig
          \<le> activeCount \<lparr>activeCount = 3, sessionIds = {|''s1'', ''s2'', ''s3''|}\<rparr>"
    by (simp add: localFull_def extConfig_def)
  have h2: "requests remoteFull ''10.0.0.1'' = requests localFull ''127.0.0.1''"
    by (simp add: localFull_def remoteFull_def)
  have h3: "tokens remoteFull ''10.0.0.1'' = tokens localFull ''127.0.0.1''"
    by (simp add: localFull_def remoteFull_def)
  note t = session_cap_without_exemption [where cfg = extConfig and ip = "''127.0.0.1''"
      and st = localFull and sid = "''s4''"
      and d = "\<lparr>activeCount = 3, sessionIds = {|''s1'', ''s2'', ''s3''|}\<rparr>"
      and ?st2.0 = remoteFull and ?ip2.0 = "''10.0.0.1''" and now = 6000 and n = 40]
  from t h1 have r1: "checkSessionLimit extConfig ''127.0.0.1'' ''s4'' localFull
      = (\<lparr>allowed = False, remaining = 0\<rparr>, localFull)"
    by blast
  from t h2 have r2: "fst (checkRequestLimit extConfig ''10.0.0.1'' 6000 remoteFull)
      = fst (checkRequestLimit extConfig ''127.0.0.1'' 6000 localFull)"
    by blast
  from t h3 have r3: "fst (checkTokenLimit extConfig ''10.0.0.1'' 40 6000 remoteFull)
      = fst (checkTokenLimit extConfig ''127.0.0.1'' 40 6000 localFull)"
    by blast
  from h1 h2 h3 r1 r2 r3 show ?thesis
    by simp
qed

text \<open>
  Against C5 as stated: \<open>127.0.0.1\<close> is on the exemption list and holds three sessions,
  the session limit; its request with a fourth session id is rejected with type
  \<open>sessions\<close>.
\<close>

theorem exempt_key_is_rejected:
  "''127.0.0.1'' \<in> set (sessions_exemptIPs extConfig)
   \<and> sessions (run extConfig localSessions emptyStore) ''127.0.0.1''
        = Some \<lparr>activeCount = 3, sessionIds = {|''s1'', ''s2'', ''s3''|}\<rparr>
   \<and> map_option (type \<circ> body)
        (fst (checkLimits extConfig ''127.0.0.1'' ''s4'' ''hello'' [] sameInstant
           (run extConfig localSessions emptyStore))) = Some Sessions"
  by (simp add: localSessions_store) (simp add: localFull_def facade_eval extConfig_def sameInstant_def)

section \<open>The retry hint of a session rejection\<close>

lemma shift_minute: "((- 60) * 1000 + (d::int)) div 1000 = - 60 + d div 1000"
  by simp

lemma ceilSeconds_minute:
  assumes "s \<le> h" and "h < s + 1000"
  shows "ceilSeconds (s + 60000 - h) = 60"
proof -
  have "- (s + 60000 - h) = (- 60) * 1000 + (h - s)"
    by simp
  then have "(- (s + 60000 - h)) div 1000 = - 60 + (h - s) div 1000"
    by (simp only: shift_minute)
  moreover have "(h - s) div 1000 = 0"
    using assms by simp
  ultimately show ?thesis
    by (simp add: ceilSeconds_def)
qed

lemma spread_keeps:
  assumes "k \<notin> fst ` set corsH"
  shows "spread hs corsH k = hs k"
proof -
  have "map_of (rev corsH) k = None"
    using assms by (simp add: map_of_eq_None_iff)
  then show ?thesis
    by (simp add: spread_def map_add_def)
qed

lemma session_rejection_response:
  assumes "checkLimits cfg ip sid msg corsH ck st = (Some resp, st')"
    and "type (body resp) = Sessions"
  shows "resp = createRateLimitResponse
           \<lparr>allowed = False,
            remaining = remaining (fst (checkSessionLimit cfg ip sid
              (snd (checkTokenLimit cfg ip (estimateTokens msg) (atTokens ck)
                 (snd (checkRequestLimit cfg ip (atRequests ck) st)))))),
            WindowVerdict.resetTime = atSessions ck + 60000,
            limit = sessions_limit cfg, type = Sessions\<rparr> corsH (atHeaders ck)"
  using assms
  by (auto simp: checkLimits_cases Let_def createRateLimitResponse_def split: if_splits)

text \<open>
  C10 (amended). Whenever \<open>checkLimits\<close> rejects on the session dimension, the response
  has status 429 and its body reports as reset time the clock reading taken at the
  rejection plus 60000 ms. Unless the caller's headers carry an entry of the same name,
  \<open>X-RateLimit-Reset\<close> is that value and \<open>Retry-After\<close> is the reset time minus the
  clock reading taken for the headers, in seconds rounded up; that is 60 when the
  second reading is not before the first and less than 1000 ms after it.
\<close>

theorem session_rejection_retry_after:
  assumes "checkLimits cfg ip sid msg corsH ck st = (Some resp, st')"
    and "type (body resp) = Sessions"
  shows "status resp = 429
     \<and> WindowVerdict.resetTime (body resp) = atSessions ck + 60000
     \<and> (''X-RateLimit-Reset'' \<notin> fst ` set corsH \<longrightarrow>
          headers resp ''X-RateLimit-Reset'' = Some (toString (atSessions ck + 60000)))
     \<and> (''Retry-After'' \<notin> fst ` set corsH \<longrightarrow>
          headers resp ''Retry-After''
            = Some (toString (ceilSeconds (atSessions ck + 60000 - atHeaders ck))))
     \<and> (''Retry-After'' \<notin> fst ` set corsH
          \<and> atSessions ck \<le> atHeaders ck \<and> atHeaders ck < atSessions ck + 1000 \<longrightarrow>
          headers resp ''Retry-After'' = Some ''60'')"
proof -
  note resp = session_rejection_response [OF assms]
  have a: "status resp = 429 \<and> WindowVerdict.resetTime (body resp) = atSessions ck + 60000"
    by (simp add: resp createRateLimitResponse_def)
  have b: "headers resp ''X-RateLimit-Reset'' = Some (toString (atSessions ck + 60000))"
    if "''X-RateLimit-Reset'' \<notin> fst ` set corsH"
    using that
    by (simp add: resp createRateLimitResponse_def spread_keeps createRateLimitHeaders_def)
  have c: "headers resp ''Retry-After''
      = Some (toString (ceilSeconds (atSessions ck + 60000 - atHeaders ck)))"
    if "''Retry-After'' \<notin> fst ` set corsH"
    using that
    by (simp add: resp createRateLimitResponse_def spread_keeps createRateLimitHeaders_def)
  have d: "headers resp ''Retry-After'' = Some ''60''"
    if "''Retry-After'' \<notin> fst ` set corsH"
      and "atSessions ck \<le> atHeaders ck" and "atHeaders ck < atSessions ck + 1000"
  proof -
    have "ceilSeconds (atSessions ck + 60000 - atHeaders ck) = 60"
      using that(2,3) by (rule ceilSeconds_minute)
    moreover have "toString 60 = ''60''"
      by (simp add: toString_def digits.simps)
    ultimately show ?thesis
      using c [OF that(1)] by simp
  qed
  from a b c d show ?thesis
    by blast
qed

lemma fullSessions_rejected:
  "fst (checkLimits config ''10.0.0.1'' ''s4'' ''hello'' [] tick fullSessions)
     = Some sessionRejection"
  by (simp add: checkLimits_cases Let_def checkRequestLimit_def checkTokenLimit_def
      checkSessionLimit_def estimateTokens_def createRateLimitResponse_def spread_def
      createRateLimitHeaders_def ceilSeconds_def toString_def digits.simps config_def tick_def
      fullSessions_def sessionRejection_def)

theorem session_rejection_retry_after_witness:
  "fst (checkLimits config ''10.0.0.1'' ''s4'' ''hello'' [] tick fullSessions)
     = Some sessionRejection
   \<and> type (body sessionRejection) = Sessions
   \<and> ''X-RateLimit-Reset'' \<notin> fst ` set ([] :: (string \<times> string) list)
   \<and> ''Retry-After'' \<notin> fst ` set ([] :: (string \<times> string) list)
   \<and> atSessions tick \<le> atHeaders tick \<and> atHeaders tick < atSessions tick + 1000
   \<and> status sessionRejection = 429
   \<and> WindowVerdict.resetTime (body sessionRejection) = atSessions tick + 60000
   \<and> headers sessionRejection ''X-RateLimit-Reset'' = Some (toString (atSessions tick + 60000))
   \<and> headers sessionRejection ''Retry-After'' = Some ''60''"
proof -
  have e: "checkLimits config ''10.0.0.1'' ''s4'' ''hello'' [] tick fullSessions
      = (Some sessionRejection,
         snd (checkLimits config ''10.0.0.1'' ''s4'' ''hello'' [] tick fullSessions))"
    using fullSessions_rejected by (simp add: prod_eq_iff)
  have t: "type (body sessionRejection) = Sessions"
    by (simp add: sessionRejection_def)
  have c: "atSessions tick \<le> atHeaders tick \<and> atHeaders tick < atSessions tick + 1000"
    by (simp add: tick_def)
  have k: "''X-RateLimit-Reset'' \<notin> fst ` set ([] :: (string \<times> string) list)
      \<and> ''Retry-After'' \<notin> fst ` set ([] :: (string \<times> string) list)"
    by simp
  from session_rejection_retry_after [OF e t] c k fullSessions_rejected t
  show ?thesis by blast
qed

text \<open>
  Against C10 as stated: the session dimension rejects, and the \<open>Retry-After\<close> header is
  59 when the headers are built a full second after the rejection, and 5 when the
  caller's headers carry \<open>Retry-After: 5\<close>.
\<close>

theorem retry_after_is_not_always_60:
  "map_option (type \<circ> body)
     (fst (checkLimits config ''10.0.0.1'' ''s4'' ''hello'' [] slowTick fullSessions))
     = Some Sessions
   \<and> map_option (\<lambda>r. headers r ''Retry-After'')
     (fst (checkLimits config ''10.0.0.1'' ''s4'' ''hello'' [] slowTick fullSessions))
     = Some (Some ''59'')
   \<and> map_option (type \<circ> body)
     (fst (checkLimits config ''10.0.0.1'' ''s4'' ''hello'' [(''Retry-After'', ''5'')] tick
        fullSessions))
     = Some Sessions
   \<and> map_option (\<lambda>r. headers r ''Retry-After'')
     (fst (checkLimits config ''10.0.0.1'' ''s4'' ''hello'' [(''Retry-After'', ''5'')] tick
        fullSessions))
     = Some (Some ''5'')"
  by (simp add: checkLimits_cases Let_def checkRequestLimit_def checkTokenLimit_def
      checkSessionLimit_def estimateTokens_def createRateLimitResponse_def spread_def
      createRateLimitHeaders_def ceilSeconds_def toString_def digits.simps config_def tick_def
      slowTick_def fullSessions_def)

section \<open>The informational headers write to the store\<close>

text \<open>
  What \<open>addRateLimitHeaders\<close> does leave alone: the session map always, and the token
  entry of a key whose window is active (the token check is called with 0 units).
\<close>

lemma addRateLimitHeaders_tokens_active:
  assumes "tokens st ip = Some d" and "nowTokens < resetTime d"
  shows "tokens (snd (addRateLimitHeaders cfg ip msg nowRequests nowTokens st)) = tokens st"
proof -
  have "tokens (snd (checkRequestLimit cfg ip nowRequests st)) ip = Some d"
    using assms(1) by (simp add: checkRequestLimit_frame)
  then have "tokens (snd (checkTokenLimit cfg ip 0 nowTokens
      (snd (checkRequestLimit cfg ip nowRequests st)))) = tokens st"
    using assms(2) by (auto simp: checkTokenLimit_def Let_def checkRequestLimit_frame)
  then show ?thesis
    by (simp add: addRateLimitHeaders_def Let_def split_beta checkRequestLimit_frame)
qed

lemma run_append: "run cfg (xs @ ys) st = run cfg ys (run cfg xs st)"
  by (simp add: run_def)

lemma oneExchange_step:
  "requests st ''10.0.0.1'' = Some \<lparr>resetTime = 3605000, count = c\<rparr> \<Longrightarrow> c + 2 \<le> 10 \<Longrightarrow>
   requests (run config oneExchange st) ''10.0.0.1''
     = Some \<lparr>resetTime = 3605000, count = c + 2\<rparr>"
  by (simp add: oneExchange_def run_def checkLimits_requests addRateLimitHeaders_requests
      checkRequestLimit_def config_def sameInstant_def)

lemma oneExchange_first:
  "requests (run config oneExchange emptyStore) ''10.0.0.1''
     = Some \<lparr>resetTime = 3605000, count = 2\<rparr>"
  by (simp add: oneExchange_def run_def checkLimits_requests addRateLimitHeaders_requests
      checkRequestLimit_def config_def sameInstant_def emptyStore_def)

lemma fiveExchanges_requests:
  "requests (run config fiveExchanges emptyStore) ''10.0.0.1''
     = Some \<lparr>resetTime = 3605000, count = 10\<rparr>"
proof -
  note s1 = oneExchange_first
  have s2: "requests (run config oneExchange (run config oneExchange emptyStore)) ''10.0.0.1''
     = Some \<lparr>resetTime = 3605000, count = 4\<rparr>"
    using oneExchange_step [OF s1] by simp
  have s3: "requests (run config oneExchange (run config oneExchange
       (run config oneExchange emptyStore))) ''10.0.0.1''
     = Some \<lparr>resetTime = 3605000, count = 6\<rparr>"
    using oneExchange_step [OF s2] by simp
  have s4: "requests (run config oneExchange (run config oneExchange (run config oneExchange
       (run config oneExchange emptyStore)))) ''10.0.0.1''
     = Some \<lparr>resetTime = 3605000, count = 8\<rparr>"
    using oneExchange_step [OF s3] by simp
  have s5: "requests (run config oneExchange (run config oneExchange (run config oneExchange
       (run config oneExchange (run config oneExchange emptyStore))))) ''10.0.0.1''
     = Some \<lparr>resetTime = 3605000, count = 10\<rparr>"
    using oneExchange_step [OF s4] by simp
  then show ?thesis
    by (simp only: fiveExchanges_def run_append)
qed

text \<open>
  C1, at a failing input. After an admitted \<open>checkLimits\<close> on the empty store the key's
  request count is 1; \<open>addRateLimitHeaders\<close> for the same request raises it to 2, because
  it obtains the remaining quota from \<open>checkRequestLimit\<close>. Every served request is so
  counted twice: after five of them the sixth is rejected with type \<open>requests\<close>, under
  a limit of 10.
\<close>

theorem headers_count_the_request_again:
  "fst (checkLimits config ''10.0.0.1'' ''s1'' ''hello'' [] sameInstant emptyStore) = None
   \<and> requests (snd (checkLimits config ''10.0.0.1'' ''s1'' ''hello'' [] sameInstant emptyStore))
        ''10.0.0.1'' = Some \<lparr>resetTime = 3605000, count = 1\<rparr>
   \<and> requests (snd (addRateLimitHeaders config ''10.0.0.1'' (Some ''hello'') 5000 5000
        (snd (checkLimits config ''10.0.0.1'' ''s1'' ''hello'' [] sameInstant emptyStore))))
        ''10.0.0.1'' = Some \<lparr>resetTime = 3605000, count = 2\<rparr>
   \<and> map_option (type \<circ> body)
        (fst (checkLimits config ''10.0.0.1'' ''s1'' ''hello'' [] sameInstant
           (run config fiveExchanges emptyStore))) = Some Requests"
proof -
  have "\<not> allowed (fst (checkRequestLimit config ''10.0.0.1'' (atRequests sameInstant)
      (run config fiveExchanges emptyStore)))"
    by (simp add: checkRequestLimit_def [of config] Let_def fiveExchanges_requests)
       (simp add: config_def sameInstant_def)
  then have "map_option (type \<circ> body)
        (fst (checkLimits config ''10.0.0.1'' ''s1'' ''hello'' [] sameInstant
           (run config fiveExchanges emptyStore))) = Some Requests"
    by (rule checkLimits_request_rejection(1))
  moreover have "fst (checkLimits config ''10.0.0.1'' ''s1'' ''hello'' [] sameInstant emptyStore) = None"
    by (simp add: facade_eval config_def sameInstant_def emptyStore_def)
  moreover have "requests (snd (checkLimits config ''10.0.0.1'' ''s1'' ''hello'' [] sameInstant emptyStore))
        ''10.0.0.1'' = Some \<lparr>resetTime = 3605000, count = 1\<rparr>"
    by (simp add: checkLimits_requests checkRequestLimit_def config_def sameInstant_def emptyStore_def)
  moreover have "requests (snd (addRateLimitHeaders config ''10.0.0.1'' (Some ''hello'') 5000 5000
        (snd (checkLimits config ''10.0.0.1'' ''s1'' ''hello'' [] sameInstant emptyStore))))
        ''10.0.0.1'' = Some \<lparr>resetTime = 3605000, count = 2\<rparr>"
    by (simp add: addRateLimitHeaders_requests checkLimits_requests checkRequestLimit_def
        config_def sameInstant_def emptyStore_def)
  ultimately show ?thesis by simp
qed

section \<open>A rejected first reservation is written to the store\<close>

text \<open>
  In an active window a rejected token check writes nothing and reports the quota left
  before the call.
\<close>

lemma checkTokenLimit_active_rejection:
  assumes "tokens st ip = Some d" and "now < resetTime d"
    and "\<not> allowed (fst (checkTokenLimit cfg ip n now st))"
  shows "checkTokenLimit cfg ip n now st =
           (\<lparr>allowed = False, remaining = max 0 (tokens_limit cfg - dailyUsage d),
             WindowVerdict.resetTime = resetTime d\<rparr>, st)"
  using assms by (simp add: checkTokenLimit_def Let_def split: if_splits)

text \<open>
  C2, at a failing input. A key has consumed 4000 units in a window that ends at
  86405000. At that instant a check for 5001 units, over the limit of 5000, returns
  \<open>allowed = false\<close> with \<open>remaining = 0\<close>, and has stored 5001 as the consumed value
  of a new window.
\<close>

theorem rejected_reserve_overwrites_usage:
  "tokens (run config earlierUsage emptyStore) ''10.0.0.1''
        = Some \<lparr>resetTime = 86405000, dailyUsage = 4000\<rparr>
   \<and> fst (checkTokenLimit config ''10.0.0.1'' 5001 86405000 (run config earlierUsage emptyStore))
        = \<lparr>allowed = False, remaining = 0, WindowVerdict.resetTime = 172805000\<rparr>
   \<and> tokens (snd (checkTokenLimit config ''10.0.0.1'' 5001 86405000
          (run config earlierUsage emptyStore))) ''10.0.0.1''
        = Some \<lparr>resetTime = 172805000, dailyUsage = 5001\<rparr>"
  by (simp add: checkTokenLimit_def Let_def config_def earlierUsage_def run_def emptyStore_def)

text \<open>
  C3, at a failing input. The first request of a key carries a message of 20001 code
  units, estimated at 5001 units. The check rejects it with type \<open>tokens\<close>, and the
  store then holds a consumed value of 5001, above the limit of 5000, in a window that
  ends a day later.
\<close>

theorem oversized_request_exceeds_budget:
  "estimateTokens longMessage = 5001
   \<and> map_option (type \<circ> body)
        (fst (checkLimits config ''10.0.0.1'' ''s1'' longMessage [] sameInstant emptyStore))
      = Some Tokens
   \<and> tokens (snd (checkLimits config ''10.0.0.1'' ''s1'' longMessage [] sameInstant emptyStore))
        ''10.0.0.1'' = Some \<lparr>resetTime = 86405000, dailyUsage = 5001\<rparr>
   \<and> tokens_limit config < 5001 \<and> atTokens sameInstant < 86405000"
proof -
  have e: "estimateTokens longMessage = 5001"
    by (simp add: estimateTokens_def longMessage_def)
  show ?thesis
    by (simp add: e)
      (simp add: checkLimits_cases Let_def checkRequestLimit_def checkTokenLimit_def e
        createRateLimitResponse_def config_def sameInstant_def emptyStore_def)
qed

end
